theory Spec2Isabelle
  imports Complex_Main "HOL-Library.Char_ord" "HOL-Library.List_Lexorder"
begin

section \<open>Data model (models/data\_models.py)\<close>

text \<open>
  Floating-point numbers are modelled as exact reals, so NaN, infinities and rounding are
  outside the model. Chain labels are strings ordered lexicographically by character code,
  as Python orders \<open>str\<close>. A residue is the tuple (chain, residue number, residue name).
  A coordinate is the 3-vector returned by \<open>atom.get_coord()\<close>. A two-dimensional numpy
  array is a list of rows.
\<close>

datatype error = IndexError | ValueError

type_synonym residue = "string \<times> int \<times> string"
type_synonym coord = "real \<times> real \<times> real"
type_synonym ndarray2 = "real list list"

record ChainChainScore =
  chain1 :: string
  chain2 :: string
  ipsae_score :: real
  pdockq_score :: real
  lis_score :: real
  avg_pae :: real
  avg_distance :: real
  num_interactions :: nat
  valid_interactions :: "(nat \<times> nat) list"
  pae_values :: "real list"
  distances :: "real list"

record ResidueScore =
  chain :: string
  residue_number :: int
  residue_name :: string
  ipsae_score :: real
  avg_pae :: real
  avg_distance :: real
  num_interactions :: nat
  valid_interactions :: "(nat \<times> nat) list"
  pae_values :: "real list"
  distances :: "real list"

record StructureData =
  chains :: "string list"
  residues :: "residue list"
  coordinates :: "coord list"
  pae_matrix :: "ndarray2 option"


section \<open>The calculator (core/calculator.py)\<close>

text \<open>
  The attributes of an \<open>IPSAECalculator\<close> after \<open>load_data\<close> has read both files.
  \<open>self.structure_data\<close> and \<open>self.pae_matrix\<close> carry the prefix \<open>calc_\<close>, the plain names
  being the fields of \<open>IPSAEResults\<close> and \<open>StructureData\<close>.
\<close>

record IPSAECalculator =
  calc_structure_data :: StructureData
  calc_pae_matrix :: ndarray2
  pae_cutoff :: real
  distance_cutoff :: real

text \<open>\<open>np.mean\<close> of a list of numbers.\<close>

definition mean :: "real list \<Rightarrow> real" where
  "mean xs = sum_list xs / real (length xs)"

text \<open>
  \<open>scipy.spatial.distance.cdist\<close> with its default metric, the Euclidean distance.
  \<open>np.array\<close> of an empty coordinate list is one-dimensional, which \<open>cdist\<close> rejects
  with a \<open>ValueError\<close>.
\<close>

definition euclidean :: "coord \<Rightarrow> coord \<Rightarrow> real" where
  "euclidean a b =
     (case a of (x1, y1, z1) \<Rightarrow> case b of (x2, y2, z2) \<Rightarrow>
        sqrt ((x1 - x2)\<^sup>2 + (y1 - y2)\<^sup>2 + (z1 - z2)\<^sup>2))"

definition cdist :: "coord list \<Rightarrow> coord list \<Rightarrow> error + ndarray2" where
  "cdist XA XB =
     (if XA = [] \<or> XB = [] then Inl ValueError
      else Inr (map (\<lambda>a. map (euclidean a) XB) XA))"

text \<open>
  \<open>m[i, j]\<close> on a two-dimensional array with non-negative indices: an index past either
  axis raises \<open>IndexError\<close>.
\<close>

definition getitem2 :: "ndarray2 \<Rightarrow> nat \<Rightarrow> nat \<Rightarrow> error + real" where
  "getitem2 m i j =
     (if i < length m then
        (if j < length (m ! i) then Inr (m ! i ! j) else Inl IndexError)
      else Inl IndexError)"

text \<open>
  The three lists \<open>valid_interactions\<close>, \<open>pae_values\<close>, \<open>dist_values\<close> that both scoring
  loops grow in step.
\<close>

type_synonym acc = "(nat \<times> nat) list \<times> real list \<times> real list"

text \<open>
  The loop body shared by both scorers: read the PAE and the distance of the index pair
  and append the pair when both are within their cutoffs.
\<close>

definition visit :: "ndarray2 \<Rightarrow> ndarray2 \<Rightarrow> real \<Rightarrow> real \<Rightarrow> nat \<Rightarrow> nat \<Rightarrow> acc \<Rightarrow> error + acc" where
  "visit P D pc dc idx1 idx2 a =
     (case getitem2 P idx1 idx2 of
        Inl e \<Rightarrow> Inl e
      | Inr pae \<Rightarrow>
          (case getitem2 D idx1 idx2 of
             Inl e \<Rightarrow> Inl e
           | Inr dst \<Rightarrow>
               (case a of (vi, pv, dv) \<Rightarrow>
                  if pae \<le> pc \<and> dst \<le> dc
                  then Inr (vi @ [(idx1, idx2)], pv @ [pae], dv @ [dst])
                  else Inr (vi, pv, dv))))"

text \<open>\<open>for idx2 in chain2_indices\<close>\<close>

fun loop_idx2 :: "ndarray2 \<Rightarrow> ndarray2 \<Rightarrow> real \<Rightarrow> real \<Rightarrow> nat \<Rightarrow> nat list \<Rightarrow> acc \<Rightarrow> error + acc" where
  "loop_idx2 P D pc dc idx1 [] a = Inr a"
| "loop_idx2 P D pc dc idx1 (idx2 # rest) a =
     (case visit P D pc dc idx1 idx2 a of
        Inl e \<Rightarrow> Inl e
      | Inr a' \<Rightarrow> loop_idx2 P D pc dc idx1 rest a')"

text \<open>\<open>for idx1 in chain1_indices\<close>\<close>

fun loop_idx1 :: "ndarray2 \<Rightarrow> ndarray2 \<Rightarrow> real \<Rightarrow> real \<Rightarrow> nat list \<Rightarrow> nat list \<Rightarrow> acc \<Rightarrow> error + acc" where
  "loop_idx1 P D pc dc [] chain2_indices a = Inr a"
| "loop_idx1 P D pc dc (idx1 # rest) chain2_indices a =
     (case loop_idx2 P D pc dc idx1 chain2_indices a of
        Inl e \<Rightarrow> Inl e
      | Inr a' \<Rightarrow> loop_idx1 P D pc dc rest chain2_indices a')"

text \<open>\<open>[k for k, (c, _, _) in enumerate(residues) if c == chain]\<close>\<close>

definition chain_indices :: "residue list \<Rightarrow> string \<Rightarrow> nat list" where
  "chain_indices rs ch = map fst (filter (\<lambda>(k, (c, _, _)). c = ch) (enumerate 0 rs))"

text \<open>
  The body of the loop over chain pairs: collect the valid interactions of one pair and,
  when there are any, build its score.
\<close>

definition score_pair :: "IPSAECalculator \<Rightarrow> ndarray2 \<Rightarrow> string \<Rightarrow> string \<Rightarrow> error + ChainChainScore option" where
  "score_pair self D c1 c2 =
     (let chain1_indices = chain_indices (residues (calc_structure_data self)) c1;
          chain2_indices = chain_indices (residues (calc_structure_data self)) c2
      in case loop_idx1 (calc_pae_matrix self) D (pae_cutoff self) (distance_cutoff self)
                chain1_indices chain2_indices ([], [], []) of
           Inl e \<Rightarrow> Inl e
         | Inr (vi, pv, dv) \<Rightarrow>
             if vi \<noteq> [] then
               (let avg_p = mean pv;
                    avg_d = mean dv
                in Inr (Some \<lparr>chain1 = c1, chain2 = c2,
                     ChainChainScore.ipsae_score = 1 - avg_p / pae_cutoff self,
                     pdockq_score = 1 / (1 + exp (- 0.5 * (avg_p - 20))),
                     lis_score = real (length vi) /
                        real (length chain1_indices * length chain2_indices),
                     ChainChainScore.avg_pae = avg_p,
                     ChainChainScore.avg_distance = avg_d,
                     ChainChainScore.num_interactions = length vi,
                     ChainChainScore.valid_interactions = vi,
                     ChainChainScore.pae_values = pv,
                     ChainChainScore.distances = dv\<rparr>))
             else Inr None)"

text \<open>\<open>for j, chain2 in enumerate(chains[i+1:], i+1)\<close>\<close>

fun loop_chain2 :: "IPSAECalculator \<Rightarrow> ndarray2 \<Rightarrow> string \<Rightarrow> string list \<Rightarrow> ChainChainScore list \<Rightarrow> error + ChainChainScore list" where
  "loop_chain2 self D c1 [] scores = Inr scores"
| "loop_chain2 self D c1 (c2 # rest) scores =
     (case score_pair self D c1 c2 of
        Inl e \<Rightarrow> Inl e
      | Inr None \<Rightarrow> loop_chain2 self D c1 rest scores
      | Inr (Some s) \<Rightarrow> loop_chain2 self D c1 rest (scores @ [s]))"

text \<open>\<open>for i, chain1 in enumerate(chains)\<close>: the chains after position i are the tail.\<close>

fun loop_chain1 :: "IPSAECalculator \<Rightarrow> ndarray2 \<Rightarrow> string list \<Rightarrow> ChainChainScore list \<Rightarrow> error + ChainChainScore list" where
  "loop_chain1 self D [] scores = Inr scores"
| "loop_chain1 self D (c1 # rest) scores =
     (case loop_chain2 self D c1 rest scores of
        Inl e \<Rightarrow> Inl e
      | Inr scores' \<Rightarrow> loop_chain1 self D rest scores')"

definition calculate_chain_chain_scores :: "IPSAECalculator \<Rightarrow> error + ChainChainScore list" where
  "calculate_chain_chain_scores self =
     (let chs = sort (remdups (chains (calc_structure_data self)))
      in case cdist (coordinates (calc_structure_data self))
                    (coordinates (calc_structure_data self)) of
           Inl e \<Rightarrow> Inl e
         | Inr D \<Rightarrow> loop_chain1 self D chs [])"

text \<open>\<open>for j in range(len(coordinates)): if i != j: ...\<close>\<close>

fun loop_j :: "ndarray2 \<Rightarrow> ndarray2 \<Rightarrow> real \<Rightarrow> real \<Rightarrow> nat \<Rightarrow> nat list \<Rightarrow> acc \<Rightarrow> error + acc" where
  "loop_j P D pc dc i [] a = Inr a"
| "loop_j P D pc dc i (j # rest) a =
     (if i \<noteq> j then
        (case visit P D pc dc i j a of
           Inl e \<Rightarrow> Inl e
         | Inr a' \<Rightarrow> loop_j P D pc dc i rest a')
      else loop_j P D pc dc i rest a)"

text \<open>The body of the loop over residues.\<close>

definition score_residue :: "IPSAECalculator \<Rightarrow> ndarray2 \<Rightarrow> nat \<Rightarrow> residue \<Rightarrow> error + ResidueScore option" where
  "score_residue self D i r =
     (case r of (ch, res_num, res_name) \<Rightarrow>
        (case loop_j (calc_pae_matrix self) D (pae_cutoff self) (distance_cutoff self) i
                [0..<length (coordinates (calc_structure_data self))] ([], [], []) of
           Inl e \<Rightarrow> Inl e
         | Inr (vi, pv, dv) \<Rightarrow>
             if vi \<noteq> [] then
               (let avg_p = mean pv;
                    avg_d = mean dv
                in Inr (Some \<lparr>chain = ch, residue_number = res_num, residue_name = res_name,
                     ResidueScore.ipsae_score = 1 - avg_p / pae_cutoff self,
                     ResidueScore.avg_pae = avg_p,
                     ResidueScore.avg_distance = avg_d,
                     ResidueScore.num_interactions = length vi,
                     ResidueScore.valid_interactions = vi,
                     ResidueScore.pae_values = pv,
                     ResidueScore.distances = dv\<rparr>))
             else Inr None))"

text \<open>\<open>for i, (chain, res_num, res_name) in enumerate(residues)\<close>\<close>

fun loop_residues :: "IPSAECalculator \<Rightarrow> ndarray2 \<Rightarrow> (nat \<times> residue) list \<Rightarrow> ResidueScore list \<Rightarrow> error + ResidueScore list" where
  "loop_residues self D [] scores = Inr scores"
| "loop_residues self D ((i, r) # rest) scores =
     (case score_residue self D i r of
        Inl e \<Rightarrow> Inl e
      | Inr None \<Rightarrow> loop_residues self D rest scores
      | Inr (Some s) \<Rightarrow> loop_residues self D rest (scores @ [s]))"

definition calculate_residue_scores :: "IPSAECalculator \<Rightarrow> error + ResidueScore list" where
  "calculate_residue_scores self =
     (case cdist (coordinates (calc_structure_data self))
                 (coordinates (calc_structure_data self)) of
        Inl e \<Rightarrow> Inl e
      | Inr D \<Rightarrow> loop_residues self D (enumerate 0 (residues (calc_structure_data self))) [])"

text \<open>
  \<open>calculate\<close>: reading the two files again is outside the model; the last step of
  \<open>load_data\<close>, attaching the PAE matrix to the structure data, is kept. The two scorers run
  in turn and an exception of either leaves no result.
\<close>

definition load_data :: "IPSAECalculator \<Rightarrow> IPSAECalculator" where
  "load_data self =
     self\<lparr>calc_structure_data :=
            (calc_structure_data self)\<lparr>pae_matrix := Some (calc_pae_matrix self)\<rparr>\<rparr>"


section \<open>The structure parsers (core/parser.py)\<close>

text \<open>
  What Biopython's \<open>get_structure\<close> returns: a structure is a sequence of models, a
  model a sequence of chains, a chain a sequence of residues, a residue a sequence of atoms.
  \<open>res_id\<close> is Biopython's residue id (hetero flag, sequence number, insertion code);
  the parsers read its second component. Reading the file is outside the model.
\<close>

record Atom =
  atom_id :: string
  atom_coord :: coord

record Residue =
  res_id :: "string \<times> int \<times> string"
  resname :: string
  res_atoms :: "Atom list"

record Chain =
  chain_id :: string
  chain_residues :: "Residue list"

type_synonym Model = "Chain list"
type_synonym Structure = "Model list"

text \<open>\<open>for atom in residue: if atom.id == 'CA': coordinates.append(atom.get_coord())\<close>\<close>

fun loop_atoms :: "Atom list \<Rightarrow> coord list \<Rightarrow> coord list" where
  "loop_atoms [] cs = cs"
| "loop_atoms (a # rest) cs =
     (if atom_id a = ''CA'' then loop_atoms rest (cs @ [atom_coord a])
      else loop_atoms rest cs)"

text \<open>\<open>for residue in chain\<close>\<close>

fun loop_chain_residues :: "string \<Rightarrow> Residue list \<Rightarrow> residue list \<times> coord list \<Rightarrow> residue list \<times> coord list" where
  "loop_chain_residues cid [] st = st"
| "loop_chain_residues cid (r # rest) (rs, cs) =
     loop_chain_residues cid rest
       (rs @ [(cid, fst (snd (res_id r)), resname r)], loop_atoms (res_atoms r) cs)"

text \<open>\<open>for chain in model\<close>\<close>

fun loop_model_chains :: "Chain list \<Rightarrow> string list \<times> residue list \<times> coord list \<Rightarrow> string list \<times> residue list \<times> coord list" where
  "loop_model_chains [] st = st"
| "loop_model_chains (c # rest) (chs, rs, cs) =
     (case loop_chain_residues (chain_id c) (chain_residues c) (rs, cs) of
        (rs', cs') \<Rightarrow> loop_model_chains rest (chs @ [chain_id c], rs', cs'))"

text \<open>\<open>for model in structure\<close>\<close>

fun loop_models :: "Structure \<Rightarrow> string list \<times> residue list \<times> coord list \<Rightarrow> string list \<times> residue list \<times> coord list" where
  "loop_models [] st = st"
| "loop_models (m # rest) st = loop_models rest (loop_model_chains m st)"

definition parse_cif :: "Structure \<Rightarrow> StructureData" where
  "parse_cif structure =
     (case loop_models structure ([], [], []) of
        (chs, rs, cs) \<Rightarrow>
          \<lparr>chains = chs, residues = rs, coordinates = cs, pae_matrix = None\<rparr>)"

definition parse_pdb :: "Structure \<Rightarrow> StructureData" where
  "parse_pdb structure =
     (case loop_models structure ([], [], []) of
        (chs, rs, cs) \<Rightarrow>
          \<lparr>chains = chs, residues = rs, coordinates = cs, pae_matrix = None\<rparr>)"

section \<open>Saving results (IPSAEResults.save)\<close>


















section \<open>What the loops compute\<close>

text \<open>
  The loops of the calculator are characterised against list comprehensions. A read of
  the index pair (i, j) succeeds when both indices lie inside the PAE matrix and inside
  the distance matrix.
\<close>

definition in_range :: "ndarray2 \<Rightarrow> ndarray2 \<Rightarrow> nat \<Rightarrow> nat \<Rightarrow> bool" where
  "in_range P D i j \<longleftrightarrow>
     i < length P \<and> j < length (P ! i) \<and> i < length D \<and> j < length (D ! i)"

text \<open>The index pairs of a list whose PAE and distance are both within the cutoffs.\<close>

definition qualifying :: "ndarray2 \<Rightarrow> ndarray2 \<Rightarrow> real \<Rightarrow> real \<Rightarrow> (nat \<times> nat) list \<Rightarrow> (nat \<times> nat) list" where
  "qualifying P D pc dc ps = filter (\<lambda>(i, j). P ! i ! j \<le> pc \<and> D ! i ! j \<le> dc) ps"

text \<open>The three accumulated lists after the index pairs \<open>ps\<close> have been appended.\<close>

definition acc_extend :: "ndarray2 \<Rightarrow> ndarray2 \<Rightarrow> acc \<Rightarrow> (nat \<times> nat) list \<Rightarrow> acc" where
  "acc_extend P D a ps =
     (case a of (vi, pv, dv) \<Rightarrow>
        (vi @ ps, pv @ map (\<lambda>(i, j). P ! i ! j) ps, dv @ map (\<lambda>(i, j). D ! i ! j) ps))"

text \<open>The pairs of a list taken in order: each element with every later one.\<close>

fun chain_pairs :: "'a list \<Rightarrow> ('a \<times> 'a) list" where
  "chain_pairs [] = []"
| "chain_pairs (c # cs) = map (Pair c) cs @ chain_pairs cs"

text \<open>The Euclidean distance matrix of a coordinate sequence.\<close>

definition dist_matrix :: "coord list \<Rightarrow> ndarray2" where
  "dist_matrix cs = map (\<lambda>a. map (euclidean a) cs) cs"

text \<open>All residue-index pairs (i in chain c1, j in chain c2).\<close>

definition pair_candidates :: "IPSAECalculator \<Rightarrow> string \<Rightarrow> string \<Rightarrow> (nat \<times> nat) list" where
  "pair_candidates self c1 c2 =
     List.product (chain_indices (residues (calc_structure_data self)) c1)
                  (chain_indices (residues (calc_structure_data self)) c2)"

text \<open>The PAE entry and the Euclidean distance of an index pair.\<close>

definition pae_at :: "IPSAECalculator \<Rightarrow> nat \<times> nat \<Rightarrow> real" where
  "pae_at self p = calc_pae_matrix self ! fst p ! snd p"

definition dist_at :: "IPSAECalculator \<Rightarrow> nat \<times> nat \<Rightarrow> real" where
  "dist_at self p =
     euclidean (coordinates (calc_structure_data self) ! fst p)
               (coordinates (calc_structure_data self) ! snd p)"

text \<open>
  The qualifying set of a chain pair: the residue-index pairs (i in chain c1, j in chain
  c2) with PAE at most \<open>pae_cutoff\<close> and Euclidean distance at most \<open>distance_cutoff\<close>.
\<close>

definition pair_qualifying :: "IPSAECalculator \<Rightarrow> string \<Rightarrow> string \<Rightarrow> (nat \<times> nat) list" where
  "pair_qualifying self c1 c2 =
     filter (\<lambda>p. pae_at self p \<le> pae_cutoff self \<and> dist_at self p \<le> distance_cutoff self)
       (pair_candidates self c1 c2)"

text \<open>
  The qualifying partners of residue i: every other index j of the structure with PAE and
  distance within the cutoffs.
\<close>

definition residue_partners :: "IPSAECalculator \<Rightarrow> nat \<Rightarrow> nat list" where
  "residue_partners self i =
     filter (\<lambda>j. j \<noteq> i \<and> pae_at self (i, j) \<le> pae_cutoff self
                 \<and> dist_at self (i, j) \<le> distance_cutoff self)
       [0..<length (coordinates (calc_structure_data self))]"

text \<open>The score of a chain pair written from its qualifying set; none when it is empty.\<close>

definition pair_record :: "IPSAECalculator \<Rightarrow> string \<Rightarrow> string \<Rightarrow> ChainChainScore option" where
  "pair_record self c1 c2 =
     (let q = pair_qualifying self c1 c2;
          m = mean (map (pae_at self) q)
      in if q = [] then None
         else Some \<lparr>chain1 = c1, chain2 = c2,
                ChainChainScore.ipsae_score = 1 - m / pae_cutoff self,
                pdockq_score = 1 / (1 + exp (- 0.5 * (m - 20))),
                lis_score = real (length q) /
                   (real (length (filter (\<lambda>r. fst r = c1) (residues (calc_structure_data self)))) *
                    real (length (filter (\<lambda>r. fst r = c2) (residues (calc_structure_data self))))),
                ChainChainScore.avg_pae = m,
                ChainChainScore.avg_distance = mean (map (dist_at self) q),
                ChainChainScore.num_interactions = length q,
                ChainChainScore.valid_interactions = q,
                ChainChainScore.pae_values = map (pae_at self) q,
                ChainChainScore.distances = map (dist_at self) q\<rparr>)"

text \<open>The score of residue i written from its qualifying partners; none when there are none.\<close>

definition residue_record :: "IPSAECalculator \<Rightarrow> nat \<Rightarrow> ResidueScore option" where
  "residue_record self i =
     (let js = residue_partners self i;
          q = map (Pair i) js;
          m = mean (map (pae_at self) q);
          r = residues (calc_structure_data self) ! i
      in if js = [] then None
         else Some \<lparr>chain = fst r, residue_number = fst (snd r), residue_name = snd (snd r),
                ResidueScore.ipsae_score = 1 - m / pae_cutoff self,
                ResidueScore.avg_pae = m,
                ResidueScore.avg_distance = mean (map (dist_at self) q),
                ResidueScore.num_interactions = length js,
                ResidueScore.valid_interactions = q,
                ResidueScore.pae_values = map (pae_at self) q,
                ResidueScore.distances = map (dist_at self) q\<rparr>)"

text \<open>Every read of a chain pair, and of a residue, lies inside both matrices.\<close>

definition pair_ok :: "IPSAECalculator \<Rightarrow> ndarray2 \<Rightarrow> string \<Rightarrow> string \<Rightarrow> bool" where
  "pair_ok self D c1 c2 \<longleftrightarrow>
     (\<forall>p \<in> set (pair_candidates self c1 c2). in_range (calc_pae_matrix self) D (fst p) (snd p))"

definition residue_ok :: "IPSAECalculator \<Rightarrow> ndarray2 \<Rightarrow> nat \<Rightarrow> bool" where
  "residue_ok self D i \<longleftrightarrow>
     (\<forall>j \<in> set [0..<length (coordinates (calc_structure_data self))].
        j \<noteq> i \<longrightarrow> in_range (calc_pae_matrix self) D i j)"

section \<open>A worked structure\<close>

text \<open>
  Three chains of one residue each. A and B lie 3 apart, C lies far away from both, and
  every off-diagonal PAE entry is 10.
\<close>

definition example_structure :: StructureData where
  "example_structure =
     \<lparr>chains = [''A'', ''B'', ''C''],
      residues = [(''A'', 1, ''ALA''), (''B'', 1, ''GLY''), (''C'', 1, ''SER'')],
      coordinates = [(0, 0, 0), (3, 0, 0), (100, 0, 0)],
      pae_matrix = None\<rparr>"

definition example_pae :: ndarray2 where
  "example_pae = [[0, 10, 10], [10, 0, 10], [10, 10, 0]]"

definition example_calc :: IPSAECalculator where
  "example_calc =
     \<lparr>calc_structure_data = example_structure, calc_pae_matrix = example_pae,
      pae_cutoff = 30, distance_cutoff = 8\<rparr>"

definition example_chain_score :: ChainChainScore where
  "example_chain_score =
     \<lparr>chain1 = ''A'', chain2 = ''B'',
      ChainChainScore.ipsae_score = 2 / 3,
      pdockq_score = 1 / (1 + exp 5),
      lis_score = 1,
      ChainChainScore.avg_pae = 10,
      ChainChainScore.avg_distance = 3,
      ChainChainScore.num_interactions = 1,
      ChainChainScore.valid_interactions = [(0, 1)],
      ChainChainScore.pae_values = [10],
      ChainChainScore.distances = [3]\<rparr>"

definition example_residue_scores :: "ResidueScore list" where
  "example_residue_scores =
     [\<lparr>chain = ''A'', residue_number = 1, residue_name = ''ALA'',
       ResidueScore.ipsae_score = 2 / 3,
       ResidueScore.avg_pae = 10,
       ResidueScore.avg_distance = 3,
       ResidueScore.num_interactions = 1,
       ResidueScore.valid_interactions = [(0, 1)],
       ResidueScore.pae_values = [10],
       ResidueScore.distances = [3]\<rparr>,
      \<lparr>chain = ''B'', residue_number = 1, residue_name = ''GLY'',
       ResidueScore.ipsae_score = 2 / 3,
       ResidueScore.avg_pae = 10,
       ResidueScore.avg_distance = 3,
       ResidueScore.num_interactions = 1,
       ResidueScore.valid_interactions = [(1, 0)],
       ResidueScore.pae_values = [10],
       ResidueScore.distances = [3]\<rparr>]"









text \<open>A parsed structure: one model with one chain of two residues, each with its CA atom.\<close>

definition two_residue_structure :: Structure where
  "two_residue_structure =
     [[\<lparr>chain_id = ''A'',
        chain_residues =
          [\<lparr>res_id = ('' '', 1, '' ''), resname = ''ALA'',
            res_atoms = [\<lparr>atom_id = ''N'', atom_coord = (0, 1, 0)\<rparr>,
                         \<lparr>atom_id = ''CA'', atom_coord = (0, 0, 0)\<rparr>]\<rparr>,
           \<lparr>res_id = ('' '', 2, '' ''), resname = ''GLY'',
            res_atoms = [\<lparr>atom_id = ''N'', atom_coord = (3, 1, 0)\<rparr>,
                         \<lparr>atom_id = ''CA'', atom_coord = (3, 0, 0)\<rparr>]\<rparr>]\<rparr>]]"

section \<open>The loops against comprehensions\<close>

lemma acc_extend_Nil: "acc_extend P D a [] = a"
  by (simp add: acc_extend_def split: prod.splits)

lemma acc_extend_append: "acc_extend P D (acc_extend P D a ps) qs = acc_extend P D a (ps @ qs)"
  by (simp add: acc_extend_def split: prod.splits)

lemma qualifying_append: "qualifying P D pc dc (ps @ qs) = qualifying P D pc dc ps @ qualifying P D pc dc qs"
  by (simp add: qualifying_def)

lemma visit_eq:
  "visit P D pc dc i j a =
     (if in_range P D i j then Inr (acc_extend P D a (qualifying P D pc dc [(i, j)]))
      else Inl IndexError)"
  by (auto simp: visit_def getitem2_def in_range_def acc_extend_def qualifying_def split: prod.splits)

lemma qualifying_Cons:
  "qualifying P D pc dc (p # ps) = qualifying P D pc dc [p] @ qualifying P D pc dc ps"
  by (simp add: qualifying_def)

lemma loop_idx2_eq:
  "loop_idx2 P D pc dc i js a =
     (if \<forall>j \<in> set js. in_range P D i j
      then Inr (acc_extend P D a (qualifying P D pc dc (map (Pair i) js)))
      else Inl IndexError)"
proof (induction js arbitrary: a)
  case Nil
  show ?case by (simp add: qualifying_def acc_extend_Nil)
next
  case (Cons j js)
  show ?case
  proof (cases "in_range P D i j")
    case True
    then show ?thesis
      using qualifying_Cons [of P D pc dc "(i, j)" "map (Pair i) js"]
      by (simp add: visit_eq Cons.IH acc_extend_append)
  next
    case False
    then show ?thesis by (simp add: visit_eq)
  qed
qed

lemma loop_idx1_eq:
  "loop_idx1 P D pc dc is js a =
     (if \<forall>(i, j) \<in> set (List.product is js). in_range P D i j
      then Inr (acc_extend P D a (qualifying P D pc dc (List.product is js)))
      else Inl IndexError)"
proof (induction "is" arbitrary: a)
  case Nil
  show ?case by (simp add: qualifying_def acc_extend_Nil)
next
  case (Cons i "is")
  show ?case
    by (auto simp: loop_idx2_eq Cons.IH qualifying_append acc_extend_append)
qed

lemma loop_j_eq:
  "loop_j P D pc dc i js a =
     (if \<forall>j \<in> set js. j \<noteq> i \<longrightarrow> in_range P D i j
      then Inr (acc_extend P D a (qualifying P D pc dc (map (Pair i) (filter (\<lambda>j. j \<noteq> i) js))))
      else Inl IndexError)"
proof (induction js arbitrary: a)
  case Nil
  show ?case by (simp add: qualifying_def acc_extend_Nil)
next
  case (Cons j js)
  show ?case
  proof (cases "i = j")
    case True
    then show ?thesis using Cons.IH [of a] by auto
  next
    case ne: False
    show ?thesis
    proof (cases "in_range P D i j")
      case True
      then show ?thesis
        using ne qualifying_Cons [of P D pc dc "(i, j)" "map (Pair i) (filter (\<lambda>j. j \<noteq> i) js)"]
        by (auto simp: visit_eq Cons.IH acc_extend_append)
    next
      case False
      then show ?thesis using ne by (auto simp: visit_eq)
    qed
  qed
qed


subsection \<open>Chain indices\<close>

lemma length_filter_enumerate:
  "length (filter (\<lambda>(k, r). Q r) (enumerate n xs)) = length (filter Q xs)"
  by (induction xs arbitrary: n) auto

lemma chain_indices_filter:
  "chain_indices rs ch = map fst (filter (\<lambda>(k, r). fst r = ch) (enumerate 0 rs))"
proof -
  have "(\<lambda>(k, (c, _, _)). c = ch) = (\<lambda>(k::nat, r::residue). fst r = ch)"
    by (auto simp: fun_eq_iff)
  then show ?thesis by (simp add: chain_indices_def)
qed

lemma length_chain_indices:
  "length (chain_indices rs ch) = length (filter (\<lambda>r. fst r = ch) rs)"
  by (simp add: chain_indices_filter length_filter_enumerate)

lemma set_chain_indices:
  "set (chain_indices rs ch) = {k. k < length rs \<and> fst (rs ! k) = ch}"
  by (auto simp: chain_indices_filter in_set_enumerate_eq image_iff)

lemma distinct_chain_indices: "distinct (chain_indices rs ch)"
  unfolding chain_indices_filter
  by (metis distinct_map_filter map_fst_enumerate distinct_upt)

subsection \<open>The distance matrix\<close>

lemma dist_matrix_nth:
  "i < length cs \<Longrightarrow> j < length cs \<Longrightarrow> dist_matrix cs ! i ! j = euclidean (cs ! i) (cs ! j)"
  by (simp add: dist_matrix_def)

lemma in_range_dist_matrix:
  "in_range P (dist_matrix cs) i j \<longleftrightarrow>
     i < length P \<and> j < length (P ! i) \<and> i < length cs \<and> j < length cs"
  by (auto simp: in_range_def dist_matrix_def)

lemma cdist_eq:
  "cdist cs cs = (if cs = [] then Inl ValueError else Inr (dist_matrix cs))"
  by (simp add: cdist_def dist_matrix_def)

lemma qualifying_dist_matrix:
  assumes "\<forall>p \<in> set ps. in_range (calc_pae_matrix self) (dist_matrix (coordinates (calc_structure_data self))) (fst p) (snd p)"
  shows "qualifying (calc_pae_matrix self) (dist_matrix (coordinates (calc_structure_data self)))
           (pae_cutoff self) (distance_cutoff self) ps =
         filter (\<lambda>p. pae_at self p \<le> pae_cutoff self \<and> dist_at self p \<le> distance_cutoff self) ps"
  unfolding qualifying_def
  by (rule filter_cong [OF refl])
     (use assms in \<open>auto simp: pae_at_def dist_at_def in_range_dist_matrix dist_matrix_nth\<close>)

lemma map_pae_at:
  "map (\<lambda>(i, j). calc_pae_matrix self ! i ! j) ps = map (pae_at self) ps"
  by (simp add: pae_at_def case_prod_beta)

lemma map_dist_at:
  assumes "\<forall>p \<in> set ps. in_range (calc_pae_matrix self) (dist_matrix (coordinates (calc_structure_data self))) (fst p) (snd p)"
  shows "map (\<lambda>(i, j). dist_matrix (coordinates (calc_structure_data self)) ! i ! j) ps =
         map (dist_at self) ps"
  by (rule map_cong [OF refl])
     (use assms in \<open>auto simp: dist_at_def in_range_dist_matrix dist_matrix_nth\<close>)

lemma score_pair_eq:
  "score_pair self (dist_matrix (coordinates (calc_structure_data self))) c1 c2 =
     (if pair_ok self (dist_matrix (coordinates (calc_structure_data self))) c1 c2
      then Inr (pair_record self c1 c2) else Inl IndexError)"
proof (cases "pair_ok self (dist_matrix (coordinates (calc_structure_data self))) c1 c2")
  case False
  then show ?thesis
    by (auto simp: score_pair_def Let_def loop_idx1_eq pair_ok_def pair_candidates_def)
next
  case True
  let ?D = "dist_matrix (coordinates (calc_structure_data self))"
  let ?ps = "pair_candidates self c1 c2"
  have ok: "\<forall>p \<in> set ?ps. in_range (calc_pae_matrix self) ?D (fst p) (snd p)"
    using True by (simp add: pair_ok_def)
  have q: "qualifying (calc_pae_matrix self) ?D (pae_cutoff self) (distance_cutoff self) ?ps =
           pair_qualifying self c1 c2"
    by (simp add: qualifying_dist_matrix [OF ok] pair_qualifying_def)
  have okq: "\<forall>p \<in> set (pair_qualifying self c1 c2). in_range (calc_pae_matrix self) ?D (fst p) (snd p)"
    using ok by (simp add: pair_qualifying_def)
  have loop: "loop_idx1 (calc_pae_matrix self) ?D (pae_cutoff self) (distance_cutoff self)
          (chain_indices (residues (calc_structure_data self)) c1)
          (chain_indices (residues (calc_structure_data self)) c2) ([], [], []) =
        Inr (pair_qualifying self c1 c2, map (pae_at self) (pair_qualifying self c1 c2),
             map (dist_at self) (pair_qualifying self c1 c2))"
    using ok q map_dist_at [OF okq]
    by (simp add: loop_idx1_eq acc_extend_def map_pae_at pair_candidates_def case_prod_beta)
  show ?thesis
    using True
    by (simp add: score_pair_def loop pair_record_def Let_def length_chain_indices)
qed

lemma loop_chain2_eq:
  "loop_chain2 self (dist_matrix (coordinates (calc_structure_data self))) c1 cs scores =
     (if \<forall>c2 \<in> set cs. pair_ok self (dist_matrix (coordinates (calc_structure_data self))) c1 c2
      then Inr (scores @ List.map_filter (pair_record self c1) cs)
      else Inl IndexError)"
proof (induction cs arbitrary: scores)
  case Nil
  show ?case by simp
next
  case (Cons c2 cs)
  show ?case
    by (cases "pair_record self c1 c2")
       (simp_all add: score_pair_eq Cons.IH)
qed

lemma map_filter_append:
  "List.map_filter f (xs @ ys) = List.map_filter f xs @ List.map_filter f ys"
  by (simp add: List.map_filter_def)

lemma map_filter_map:
  "List.map_filter f (map g xs) = List.map_filter (f \<circ> g) xs"
  by (simp add: List.map_filter_def filter_map comp_def)

lemma loop_chain1_eq:
  "loop_chain1 self (dist_matrix (coordinates (calc_structure_data self))) cs scores =
     (if \<forall>p \<in> set (chain_pairs cs).
           pair_ok self (dist_matrix (coordinates (calc_structure_data self))) (fst p) (snd p)
      then Inr (scores @ List.map_filter (\<lambda>p. pair_record self (fst p) (snd p)) (chain_pairs cs))
      else Inl IndexError)"
proof (induction cs arbitrary: scores)
  case Nil
  show ?case by simp
next
  case (Cons c cs)
  have sp: "(\<forall>p \<in> set (chain_pairs (c # cs)). Q (fst p) (snd p)) \<longleftrightarrow>
        (\<forall>c2 \<in> set cs. Q c c2) \<and> (\<forall>p \<in> set (chain_pairs cs). Q (fst p) (snd p))" for Q
    by force
  show ?case
    by (simp add: loop_chain2_eq Cons.IH map_filter_append map_filter_map comp_def sp
          del: chain_pairs.simps)
       (simp add: map_filter_append map_filter_map comp_def)
qed

lemma calculate_chain_chain_scores_eq:
  "calculate_chain_chain_scores self =
     (if coordinates (calc_structure_data self) = [] then Inl ValueError
      else if \<forall>p \<in> set (chain_pairs (sort (remdups (chains (calc_structure_data self))))).
                pair_ok self (dist_matrix (coordinates (calc_structure_data self))) (fst p) (snd p)
      then Inr (List.map_filter (\<lambda>p. pair_record self (fst p) (snd p))
                  (chain_pairs (sort (remdups (chains (calc_structure_data self))))))
      else Inl IndexError)"
  by (simp add: calculate_chain_chain_scores_def cdist_eq loop_chain1_eq Let_def)

lemma score_residue_eq:
  "score_residue self (dist_matrix (coordinates (calc_structure_data self))) i
     (residues (calc_structure_data self) ! i) =
     (if residue_ok self (dist_matrix (coordinates (calc_structure_data self))) i
      then Inr (residue_record self i) else Inl IndexError)"
proof (cases "residue_ok self (dist_matrix (coordinates (calc_structure_data self))) i")
  case False
  then show ?thesis
    by (auto simp: score_residue_def loop_j_eq residue_ok_def split: prod.splits)
next
  case True
  let ?D = "dist_matrix (coordinates (calc_structure_data self))"
  let ?n = "length (coordinates (calc_structure_data self))"
  let ?ps = "map (Pair i) (filter (\<lambda>j. j \<noteq> i) [0..<?n])"
  let ?q = "map (Pair i) (residue_partners self i)"
  have ok: "\<forall>p \<in> set ?ps. in_range (calc_pae_matrix self) ?D (fst p) (snd p)"
    using True by (auto simp: residue_ok_def)
  have "qualifying (calc_pae_matrix self) ?D (pae_cutoff self) (distance_cutoff self) ?ps =
        filter (\<lambda>p. pae_at self p \<le> pae_cutoff self \<and> dist_at self p \<le> distance_cutoff self) ?ps"
    by (rule qualifying_dist_matrix [OF ok])
  also have "\<dots> = ?q"
    unfolding residue_partners_def filter_map filter_filter
    by (rule arg_cong [where f = "map (Pair i)"], rule filter_cong [OF refl]) (auto simp: comp_def)
  finally have q: "qualifying (calc_pae_matrix self) ?D (pae_cutoff self) (distance_cutoff self) ?ps = ?q" .
  have okq: "\<forall>p \<in> set ?q. in_range (calc_pae_matrix self) ?D (fst p) (snd p)"
    using True by (auto simp: residue_ok_def residue_partners_def)
  have ext: "acc_extend (calc_pae_matrix self) ?D ([], [], []) ?q =
        (?q, map (pae_at self) ?q, map (dist_at self) ?q)"
    by (simp only: acc_extend_def prod.case append_Nil map_pae_at map_dist_at [OF okq])
  have "loop_j (calc_pae_matrix self) ?D (pae_cutoff self) (distance_cutoff self) i
          [0..<?n] ([], [], []) = Inr (acc_extend (calc_pae_matrix self) ?D ([], [], []) ?q)"
    using True q by (simp add: loop_j_eq residue_ok_def)
  then have loop: "loop_j (calc_pae_matrix self) ?D (pae_cutoff self) (distance_cutoff self) i
          [0..<?n] ([], [], []) =
        Inr (?q, map (pae_at self) ?q, map (dist_at self) ?q)"
    by (simp only: ext)
  show ?thesis
    using True
    by (simp add: score_residue_def loop residue_record_def Let_def split: prod.splits)
qed

lemma loop_residues_eq:
  assumes "\<forall>p \<in> set ps. snd p = residues (calc_structure_data self) ! fst p"
  shows "loop_residues self (dist_matrix (coordinates (calc_structure_data self))) ps scores =
     (if \<forall>i \<in> set (map fst ps). residue_ok self (dist_matrix (coordinates (calc_structure_data self))) i
      then Inr (scores @ List.map_filter (residue_record self) (map fst ps))
      else Inl IndexError)"
  using assms
proof (induction ps arbitrary: scores)
  case Nil
  show ?case by simp
next
  case (Cons p ps)
  obtain i r where p: "p = (i, r)" by (cases p)
  have r: "r = residues (calc_structure_data self) ! i"
    using Cons.prems p by simp
  have IH: "loop_residues self (dist_matrix (coordinates (calc_structure_data self))) ps sc =
     (if \<forall>i \<in> set (map fst ps). residue_ok self (dist_matrix (coordinates (calc_structure_data self))) i
      then Inr (sc @ List.map_filter (residue_record self) (map fst ps))
      else Inl IndexError)" for sc
    using Cons.IH [of sc] Cons.prems by simp
  show ?case
  proof (cases "residue_ok self (dist_matrix (coordinates (calc_structure_data self))) i")
    case False
    then show ?thesis by (simp add: p r score_residue_eq)
  next
    case True
    then show ?thesis
      by (cases "residue_record self i") (simp_all add: p r score_residue_eq IH)
  qed
qed

lemma enumerate_nth: "\<forall>p \<in> set (enumerate 0 xs). snd p = xs ! fst p"
  by (auto simp: in_set_enumerate_eq)

lemma calculate_residue_scores_eq:
  "calculate_residue_scores self =
     (if coordinates (calc_structure_data self) = [] then Inl ValueError
      else if \<forall>i \<in> set [0..<length (residues (calc_structure_data self))].
                residue_ok self (dist_matrix (coordinates (calc_structure_data self))) i
      then Inr (List.map_filter (residue_record self)
                  [0..<length (residues (calc_structure_data self))])
      else Inl IndexError)"
  using loop_residues_eq [where ps = "enumerate 0 (residues (calc_structure_data self))"
      and scores = "[]" and self = self, OF enumerate_nth]
  by (simp add: calculate_residue_scores_def cdist_eq)

section \<open>Running the worked structure\<close>

lemma sqrt_le_iff_sq: "0 \<le> c \<Longrightarrow> sqrt x \<le> c \<longleftrightarrow> x \<le> c\<^sup>2"
  by (metis abs_of_nonneg real_sqrt_abs real_sqrt_le_iff)

lemma sqrt_9: "sqrt 9 = 3"
  using real_sqrt_abs [of 3] by simp

lemma example_chain_run:
  "calculate_chain_chain_scores (load_data example_calc) = Inr [example_chain_score]"
  by (simp add: calculate_chain_chain_scores_def load_data_def example_calc_def
        example_structure_def example_pae_def example_chain_score_def cdist_def
        euclidean_def score_pair_def chain_indices_def visit_def getitem2_def mean_def
        sqrt_le_iff_sq sqrt_9 Let_def)

lemma example_residue_run:
  "calculate_residue_scores (load_data example_calc) = Inr example_residue_scores"
  by (simp add: calculate_residue_scores_def load_data_def example_calc_def
        example_structure_def example_pae_def example_residue_scores_def cdist_def
        euclidean_def score_residue_def visit_def getitem2_def mean_def
        sqrt_le_iff_sq sqrt_9 Let_def upt_rec)


section \<open>Where an emitted score comes from\<close>

lemma in_map_filterD:
  "y \<in> set (List.map_filter f xs) \<Longrightarrow> \<exists>x \<in> set xs. f x = Some y"
  by (auto simp: List.map_filter_def)

lemma chain_scores_InrD:
  assumes "calculate_chain_chain_scores self = Inr out"
  shows "coordinates (calc_structure_data self) \<noteq> []"
    and "\<forall>p \<in> set (chain_pairs (sort (remdups (chains (calc_structure_data self))))).
           pair_ok self (dist_matrix (coordinates (calc_structure_data self))) (fst p) (snd p)"
    and "out = List.map_filter (\<lambda>p. pair_record self (fst p) (snd p))
                 (chain_pairs (sort (remdups (chains (calc_structure_data self)))))"
  using assms unfolding calculate_chain_chain_scores_eq
  by (auto split: if_splits)

lemma residue_scores_InrD:
  assumes "calculate_residue_scores self = Inr out"
  shows "coordinates (calc_structure_data self) \<noteq> []"
    and "\<forall>i \<in> set [0..<length (residues (calc_structure_data self))].
           residue_ok self (dist_matrix (coordinates (calc_structure_data self))) i"
    and "out = List.map_filter (residue_record self)
                 [0..<length (residues (calc_structure_data self))]"
  using assms unfolding calculate_residue_scores_eq
  by (auto split: if_splits)

lemma chain_score_origin:
  assumes "calculate_chain_chain_scores self = Inr out" and "s \<in> set out"
  shows "\<exists>p \<in> set (chain_pairs (sort (remdups (chains (calc_structure_data self))))).
           pair_record self (fst p) (snd p) = Some s"
  using assms(2) unfolding chain_scores_InrD(3) [OF assms(1)]
  by (rule in_map_filterD)

lemma residue_score_origin:
  assumes "calculate_residue_scores self = Inr out" and "s \<in> set out"
  shows "\<exists>i < length (residues (calc_structure_data self)). residue_record self i = Some s"
  using in_map_filterD [OF assms(2) [unfolded residue_scores_InrD(3) [OF assms(1)]]]
  by auto

lemma pair_record_SomeD:
  assumes "pair_record self c1 c2 = Some s"
  shows "pair_qualifying self c1 c2 \<noteq> []"
    and "chain1 s = c1" and "chain2 s = c2"
    and "ChainChainScore.valid_interactions s = pair_qualifying self c1 c2"
    and "ChainChainScore.pae_values s = map (pae_at self) (pair_qualifying self c1 c2)"
    and "ChainChainScore.distances s = map (dist_at self) (pair_qualifying self c1 c2)"
    and "ChainChainScore.num_interactions s = length (pair_qualifying self c1 c2)"
    and "ChainChainScore.avg_pae s = mean (map (pae_at self) (pair_qualifying self c1 c2))"
    and "ChainChainScore.avg_distance s = mean (map (dist_at self) (pair_qualifying self c1 c2))"
    and "ChainChainScore.ipsae_score s =
           1 - mean (map (pae_at self) (pair_qualifying self c1 c2)) / pae_cutoff self"
    and "pdockq_score s =
           1 / (1 + exp (- 0.5 * (mean (map (pae_at self) (pair_qualifying self c1 c2)) - 20)))"
    and "lis_score s = real (length (pair_qualifying self c1 c2)) /
           (real (length (filter (\<lambda>r. fst r = c1) (residues (calc_structure_data self)))) *
            real (length (filter (\<lambda>r. fst r = c2) (residues (calc_structure_data self)))))"
  using assms by (auto simp: pair_record_def Let_def split: if_splits)

lemma residue_record_SomeD:
  assumes "residue_record self i = Some s"
  shows "residue_partners self i \<noteq> []"
    and "chain s = fst (residues (calc_structure_data self) ! i)"
    and "residue_number s = fst (snd (residues (calc_structure_data self) ! i))"
    and "residue_name s = snd (snd (residues (calc_structure_data self) ! i))"
    and "ResidueScore.valid_interactions s = map (Pair i) (residue_partners self i)"
    and "ResidueScore.pae_values s = map (\<lambda>j. pae_at self (i, j)) (residue_partners self i)"
    and "ResidueScore.distances s = map (\<lambda>j. dist_at self (i, j)) (residue_partners self i)"
    and "ResidueScore.num_interactions s = length (residue_partners self i)"
    and "ResidueScore.avg_pae s = mean (map (\<lambda>j. pae_at self (i, j)) (residue_partners self i))"
    and "ResidueScore.avg_distance s =
           mean (map (\<lambda>j. dist_at self (i, j)) (residue_partners self i))"
    and "ResidueScore.ipsae_score s =
           1 - mean (map (\<lambda>j. pae_at self (i, j)) (residue_partners self i)) / pae_cutoff self"
  using assms by (auto simp: residue_record_def Let_def comp_def split: if_splits)

section \<open>Properties of the scores\<close>

text \<open>
  C6. Internal aggregate consistency. In every emitted chain-pair score and in every
  emitted residue score, \<open>num_interactions\<close> is the length of the retained
  \<open>valid_interactions\<close> list, the \<open>pae_values\<close> and \<open>distances\<close> lists have that same
  length, and \<open>avg_pae\<close> and \<open>avg_distance\<close> are the arithmetic means of the \<open>pae_values\<close>
  and \<open>distances\<close> stored in the same record. Over exact reals the means agree exactly,
  hence within any tolerance.
\<close>

theorem aggregates_consistent:
  "(calculate_chain_chain_scores self = Inr ccs \<longrightarrow>
      (\<forall>s \<in> set ccs.
         ChainChainScore.num_interactions s = length (ChainChainScore.valid_interactions s) \<and>
         length (ChainChainScore.pae_values s) = length (ChainChainScore.valid_interactions s) \<and>
         length (ChainChainScore.distances s) = length (ChainChainScore.valid_interactions s) \<and>
         ChainChainScore.avg_pae s = mean (ChainChainScore.pae_values s) \<and>
         ChainChainScore.avg_distance s = mean (ChainChainScore.distances s))) \<and>
   (calculate_residue_scores self = Inr rss \<longrightarrow>
      (\<forall>s \<in> set rss.
         ResidueScore.num_interactions s = length (ResidueScore.valid_interactions s) \<and>
         length (ResidueScore.pae_values s) = length (ResidueScore.valid_interactions s) \<and>
         length (ResidueScore.distances s) = length (ResidueScore.valid_interactions s) \<and>
         ResidueScore.avg_pae s = mean (ResidueScore.pae_values s) \<and>
         ResidueScore.avg_distance s = mean (ResidueScore.distances s)))"
proof (intro conjI impI ballI)
  fix s assume run: "calculate_chain_chain_scores self = Inr ccs" and s: "s \<in> set ccs"
  from chain_score_origin [OF run s] obtain p where
    rec: "pair_record self (fst p) (snd p) = Some s" by blast
  note f = pair_record_SomeD [OF rec]
  show "ChainChainScore.num_interactions s = length (ChainChainScore.valid_interactions s)"
    by (simp add: f)
  show "length (ChainChainScore.pae_values s) = length (ChainChainScore.valid_interactions s)"
    by (simp add: f)
  show "length (ChainChainScore.distances s) = length (ChainChainScore.valid_interactions s)"
    by (simp add: f)
  show "ChainChainScore.avg_pae s = mean (ChainChainScore.pae_values s)"
    by (simp add: f)
  show "ChainChainScore.avg_distance s = mean (ChainChainScore.distances s)"
    by (simp add: f)
next
  fix s assume run: "calculate_residue_scores self = Inr rss" and s: "s \<in> set rss"
  from residue_score_origin [OF run s] obtain i where
    rec: "residue_record self i = Some s" by blast
  note f = residue_record_SomeD [OF rec]
  show "ResidueScore.num_interactions s = length (ResidueScore.valid_interactions s)"
    by (simp add: f)
  show "length (ResidueScore.pae_values s) = length (ResidueScore.valid_interactions s)"
    by (simp add: f)
  show "length (ResidueScore.distances s) = length (ResidueScore.valid_interactions s)"
    by (simp add: f)
  show "ResidueScore.avg_pae s = mean (ResidueScore.pae_values s)"
    by (simp add: f)
  show "ResidueScore.avg_distance s = mean (ResidueScore.distances s)"
    by (simp add: f)
qed

theorem aggregates_consistent_witness:
  "calculate_chain_chain_scores (load_data example_calc) = Inr [example_chain_score] \<and>
   calculate_residue_scores (load_data example_calc) = Inr example_residue_scores \<and>
   ChainChainScore.num_interactions example_chain_score =
     length (ChainChainScore.valid_interactions example_chain_score) \<and>
   ChainChainScore.avg_pae example_chain_score =
     mean (ChainChainScore.pae_values example_chain_score) \<and>
   ResidueScore.avg_distance (hd example_residue_scores) =
     mean (ResidueScore.distances (hd example_residue_scores))"
  using aggregates_consistent [of "load_data example_calc" "[example_chain_score]"
      example_residue_scores]
  by (simp add: example_chain_run example_residue_run example_residue_scores_def)

section \<open>Chain pairs and qualifying sets\<close>

lemma fst_chain_pairs: "p \<in> set (chain_pairs xs) \<Longrightarrow> fst p \<in> set xs \<and> snd p \<in> set xs"
  by (induction xs) auto

lemma set_chain_pairs:
  "sorted_wrt (<) xs \<Longrightarrow>
     set (chain_pairs xs) = {(a, b). a \<in> set xs \<and> b \<in> set xs \<and> a < (b::'a::linorder)}"
proof (induction xs)
  case Nil
  show ?case by simp
next
  case (Cons x xs)
  then have lt: "\<forall>y \<in> set xs. x < y" and IH: "set (chain_pairs xs) = {(a, b). a \<in> set xs \<and> b \<in> set xs \<and> a < b}"
    by simp_all
  show ?case
    unfolding chain_pairs.simps set_append IH
    using lt by (auto dest: less_asym)
qed

lemma distinct_chain_pairs: "distinct xs \<Longrightarrow> distinct (chain_pairs xs)"
proof (induction xs)
  case Nil
  show ?case by simp
next
  case (Cons x xs)
  then show ?case
    by (auto simp: distinct_map inj_on_def dest: fst_chain_pairs)
qed

lemma sorted_chain_pairs:
  "sorted_wrt (<) xs \<Longrightarrow>
     sorted_wrt (\<lambda>p q. fst p < fst q \<or> (fst p = fst q \<and> snd p < snd q))
       (chain_pairs (xs::'a::linorder list))"
proof (induction xs)
  case Nil
  show ?case by simp
next
  case (Cons x xs)
  then have lt: "\<forall>y \<in> set xs. x < y" and s: "sorted_wrt (<) xs" by simp_all
  have 1: "sorted_wrt (\<lambda>p q. fst p < fst q \<or> (fst p = fst q \<and> snd p < snd q)) (map (Pair x) xs)"
    using s by (simp add: sorted_wrt_map)
  have 2: "\<forall>p \<in> set (map (Pair x) xs). \<forall>q \<in> set (chain_pairs xs). fst p < fst q"
    using lt by (auto dest: fst_chain_pairs)
  show ?case
    using 1 2 Cons.IH [OF s] by (auto simp: sorted_wrt_append)
qed

lemma sorted_chains: "sorted_wrt (<) (sort (remdups (cs::string list)))"
  by (simp add: strict_sorted_iff)

lemma map_map_filter_chain:
  "map (\<lambda>s. (chain1 s, chain2 s)) (List.map_filter (\<lambda>p. pair_record self (fst p) (snd p)) ps) =
     filter (\<lambda>p. pair_qualifying self (fst p) (snd p) \<noteq> []) ps"
proof (induction ps)
  case Nil
  show ?case by simp
next
  case (Cons p ps)
  show ?case
  proof (cases "pair_record self (fst p) (snd p)")
    case None
    then have "pair_qualifying self (fst p) (snd p) = []"
      by (auto simp: pair_record_def Let_def split: if_splits)
    with None Cons.IH show ?thesis by simp
  next
    case (Some s)
    from pair_record_SomeD(1-3) [OF Some] Some Cons.IH show ?thesis
      by simp
  qed
qed

lemma set_pair_candidates:
  "set (pair_candidates self c1 c2) =
     {(i, j). i < length (residues (calc_structure_data self)) \<and>
              j < length (residues (calc_structure_data self)) \<and>
              fst (residues (calc_structure_data self) ! i) = c1 \<and>
              fst (residues (calc_structure_data self) ! j) = c2}"
  by (auto simp: pair_candidates_def set_chain_indices)

lemma set_pair_qualifying:
  "set (pair_qualifying self c1 c2) =
     {(i, j). i < length (residues (calc_structure_data self)) \<and>
              j < length (residues (calc_structure_data self)) \<and>
              fst (residues (calc_structure_data self) ! i) = c1 \<and>
              fst (residues (calc_structure_data self) ! j) = c2 \<and>
              calc_pae_matrix self ! i ! j \<le> pae_cutoff self \<and>
              euclidean (coordinates (calc_structure_data self) ! i)
                        (coordinates (calc_structure_data self) ! j) \<le> distance_cutoff self}"
  by (auto simp: pair_qualifying_def set_pair_candidates pae_at_def dist_at_def)

text \<open>
  C1. Every chain pair emitted by \<open>calculate_chain_chain_scores\<close> has a non-empty
  qualifying set, and its derived values are: \<open>avg_pae\<close> and \<open>avg_distance\<close> the arithmetic
  means of the qualifying PAE and distance values, \<open>ipsae_score\<close> = 1 - mean PAE /
  \<open>pae_cutoff\<close>, \<open>pdockq_score\<close> = 1 / (1 + exp (-0.5 * (mean PAE - 20))), and \<open>lis_score\<close> =
  number of qualifying pairs / (residues of chain1 * residues of chain2).
\<close>

theorem chain_pair_formulas:
  assumes "calculate_chain_chain_scores self = Inr out" and "s \<in> set out"
  shows "pair_qualifying self (chain1 s) (chain2 s) \<noteq> [] \<and>
         ChainChainScore.avg_pae s =
           mean (map (pae_at self) (pair_qualifying self (chain1 s) (chain2 s))) \<and>
         ChainChainScore.avg_distance s =
           mean (map (dist_at self) (pair_qualifying self (chain1 s) (chain2 s))) \<and>
         ChainChainScore.ipsae_score s =
           1 - mean (map (pae_at self) (pair_qualifying self (chain1 s) (chain2 s)))
                 / pae_cutoff self \<and>
         pdockq_score s =
           1 / (1 + exp (- 0.5 *
                  (mean (map (pae_at self) (pair_qualifying self (chain1 s) (chain2 s))) - 20))) \<and>
         lis_score s =
           real (length (pair_qualifying self (chain1 s) (chain2 s))) /
             (real (length (filter (\<lambda>r. fst r = chain1 s) (residues (calc_structure_data self)))) *
              real (length (filter (\<lambda>r. fst r = chain2 s) (residues (calc_structure_data self)))))"
proof -
  from chain_score_origin [OF assms] obtain p where
    rec: "pair_record self (fst p) (snd p) = Some s" by blast
  note f = pair_record_SomeD [OF rec]
  have c: "fst p = chain1 s" "snd p = chain2 s" by (simp_all add: f)
  show ?thesis
    using f(1,8,9,10,11,12) unfolding c by simp
qed

theorem chain_pair_formulas_witness:
  "calculate_chain_chain_scores (load_data example_calc) = Inr [example_chain_score] \<and>
   example_chain_score \<in> set [example_chain_score] \<and>
   pair_qualifying (load_data example_calc) ''A'' ''B'' \<noteq> [] \<and>
   ChainChainScore.ipsae_score example_chain_score =
     1 - mean (map (pae_at (load_data example_calc))
                 (pair_qualifying (load_data example_calc) ''A'' ''B''))
           / pae_cutoff (load_data example_calc)"
  using chain_pair_formulas [OF example_chain_run, of example_chain_score] example_chain_run
  by (simp add: example_chain_score_def)

text \<open>
  C2. \<open>calculate_chain_chain_scores\<close> takes the distinct chain labels in lexicographic
  order, visits every pair of distinct labels (chain1 < chain2) exactly once in that order
  (the emitted scores are, in order, the visited pairs whose qualifying set is not empty),
  and collects for each pair exactly the residue-index pairs (i in chain1, j in chain2) with
  PAE at most \<open>pae_cutoff\<close> and Euclidean distance at most \<open>distance_cutoff\<close>.
\<close>

theorem chain_pair_enumeration:
  assumes "calculate_chain_chain_scores self = Inr out"
  shows "sorted (sort (remdups (chains (calc_structure_data self)))) \<and>
         distinct (sort (remdups (chains (calc_structure_data self)))) \<and>
         set (sort (remdups (chains (calc_structure_data self)))) =
           set (chains (calc_structure_data self)) \<and>
         distinct (chain_pairs (sort (remdups (chains (calc_structure_data self))))) \<and>
         set (chain_pairs (sort (remdups (chains (calc_structure_data self))))) =
           {(a, b). a \<in> set (chains (calc_structure_data self)) \<and>
                    b \<in> set (chains (calc_structure_data self)) \<and> a < b} \<and>
         sorted_wrt (\<lambda>p q. fst p < fst q \<or> (fst p = fst q \<and> snd p < snd q))
           (chain_pairs (sort (remdups (chains (calc_structure_data self))))) \<and>
         map (\<lambda>s. (chain1 s, chain2 s)) out =
           filter (\<lambda>p. pair_qualifying self (fst p) (snd p) \<noteq> [])
             (chain_pairs (sort (remdups (chains (calc_structure_data self))))) \<and>
         (\<forall>s \<in> set out.
            ChainChainScore.valid_interactions s = pair_qualifying self (chain1 s) (chain2 s) \<and>
            set (ChainChainScore.valid_interactions s) =
              {(i, j). i < length (residues (calc_structure_data self)) \<and>
                       j < length (residues (calc_structure_data self)) \<and>
                       fst (residues (calc_structure_data self) ! i) = chain1 s \<and>
                       fst (residues (calc_structure_data self) ! j) = chain2 s \<and>
                       calc_pae_matrix self ! i ! j \<le> pae_cutoff self \<and>
                       euclidean (coordinates (calc_structure_data self) ! i)
                                 (coordinates (calc_structure_data self) ! j)
                         \<le> distance_cutoff self})"
proof -
  let ?chs = "sort (remdups (chains (calc_structure_data self)))"
  have st: "sorted_wrt (<) ?chs" by (rule sorted_chains)
  have 1: "sorted ?chs" "distinct ?chs" "set ?chs = set (chains (calc_structure_data self))"
    by simp_all
  have 2: "distinct (chain_pairs ?chs)"
    by (rule distinct_chain_pairs) simp
  have 3: "set (chain_pairs ?chs) =
           {(a, b). a \<in> set (chains (calc_structure_data self)) \<and>
                    b \<in> set (chains (calc_structure_data self)) \<and> a < b}"
    using set_chain_pairs [OF st] by simp
  have 4: "sorted_wrt (\<lambda>p q. fst p < fst q \<or> (fst p = fst q \<and> snd p < snd q)) (chain_pairs ?chs)"
    by (rule sorted_chain_pairs [OF st])
  have 5: "map (\<lambda>s. (chain1 s, chain2 s)) out =
           filter (\<lambda>p. pair_qualifying self (fst p) (snd p) \<noteq> []) (chain_pairs ?chs)"
    unfolding chain_scores_InrD(3) [OF assms] by (rule map_map_filter_chain)
  have 6: "ChainChainScore.valid_interactions s = pair_qualifying self (chain1 s) (chain2 s)"
    if "s \<in> set out" for s
  proof -
    from chain_score_origin [OF assms that] obtain p where
      rec: "pair_record self (fst p) (snd p) = Some s" by blast
    from pair_record_SomeD(2-4) [OF rec] show ?thesis by simp
  qed
  have 7: "set (ChainChainScore.valid_interactions s) =
              {(i, j). i < length (residues (calc_structure_data self)) \<and>
                       j < length (residues (calc_structure_data self)) \<and>
                       fst (residues (calc_structure_data self) ! i) = chain1 s \<and>
                       fst (residues (calc_structure_data self) ! j) = chain2 s \<and>
                       calc_pae_matrix self ! i ! j \<le> pae_cutoff self \<and>
                       euclidean (coordinates (calc_structure_data self) ! i)
                                 (coordinates (calc_structure_data self) ! j)
                         \<le> distance_cutoff self}"
    if "s \<in> set out" for s
    unfolding 6 [OF that] by (rule set_pair_qualifying)
  show ?thesis
    using 1 2 3 4 5 6 7 by blast
qed

theorem chain_pair_enumeration_witness:
  "calculate_chain_chain_scores (load_data example_calc) = Inr [example_chain_score] \<and>
   chain_pairs (sort (remdups (chains (calc_structure_data (load_data example_calc))))) =
     [(''A'', ''B''), (''A'', ''C''), (''B'', ''C'')] \<and>
   map (\<lambda>s. (chain1 s, chain2 s)) [example_chain_score] =
     filter (\<lambda>p. pair_qualifying (load_data example_calc) (fst p) (snd p) \<noteq> [])
       (chain_pairs (sort (remdups (chains (calc_structure_data (load_data example_calc))))))"
  using chain_pair_enumeration [OF example_chain_run] example_chain_run
  by (simp add: load_data_def example_calc_def example_structure_def)

lemma in_map_filterI:
  "x \<in> set xs \<Longrightarrow> f x = Some y \<Longrightarrow> y \<in> set (List.map_filter f xs)"
  by (force simp: List.map_filter_def)

lemma set_residue_partners:
  "set (residue_partners self i) =
     {j. j < length (coordinates (calc_structure_data self)) \<and> j \<noteq> i \<and>
         calc_pae_matrix self ! i ! j \<le> pae_cutoff self \<and>
         euclidean (coordinates (calc_structure_data self) ! i)
                   (coordinates (calc_structure_data self) ! j) \<le> distance_cutoff self}"
  by (auto simp: residue_partners_def pae_at_def dist_at_def)

lemma residue_record_Some:
  "residue_partners self i \<noteq> [] \<Longrightarrow> \<exists>s. residue_record self i = Some s"
  by (simp add: residue_record_def Let_def)

text \<open>
  C3. For every residue index i, \<open>calculate_residue_scores\<close> scans every other index j of
  the whole structure, same chain or not, keeps exactly those j with PAE and distance within
  the cutoffs, and, when at least one partner qualifies, emits the residue's chain, number
  and name, the partner count, the mean PAE, the mean distance, the score
  1 - mean PAE / \<open>pae_cutoff\<close> and the raw partner lists; the output lists these records in
  residue order.
\<close>

theorem residue_scan:
  assumes "calculate_residue_scores self = Inr out"
  shows "out = List.map_filter (residue_record self)
                 [0..<length (residues (calc_structure_data self))] \<and>
         (\<forall>i < length (residues (calc_structure_data self)).
            set (residue_partners self i) =
              {j. j < length (coordinates (calc_structure_data self)) \<and> j \<noteq> i \<and>
                  calc_pae_matrix self ! i ! j \<le> pae_cutoff self \<and>
                  euclidean (coordinates (calc_structure_data self) ! i)
                            (coordinates (calc_structure_data self) ! j)
                    \<le> distance_cutoff self} \<and>
            (residue_partners self i \<noteq> [] \<longrightarrow>
               (\<exists>s \<in> set out.
                  chain s = fst (residues (calc_structure_data self) ! i) \<and>
                  residue_number s = fst (snd (residues (calc_structure_data self) ! i)) \<and>
                  residue_name s = snd (snd (residues (calc_structure_data self) ! i)) \<and>
                  ResidueScore.num_interactions s = length (residue_partners self i) \<and>
                  ResidueScore.avg_pae s =
                    mean (map (\<lambda>j. pae_at self (i, j)) (residue_partners self i)) \<and>
                  ResidueScore.avg_distance s =
                    mean (map (\<lambda>j. dist_at self (i, j)) (residue_partners self i)) \<and>
                  ResidueScore.ipsae_score s =
                    1 - mean (map (\<lambda>j. pae_at self (i, j)) (residue_partners self i))
                          / pae_cutoff self \<and>
                  ResidueScore.valid_interactions s = map (Pair i) (residue_partners self i) \<and>
                  ResidueScore.pae_values s =
                    map (\<lambda>j. pae_at self (i, j)) (residue_partners self i) \<and>
                  ResidueScore.distances s =
                    map (\<lambda>j. dist_at self (i, j)) (residue_partners self i))))"
proof (intro conjI allI impI)
  show out: "out = List.map_filter (residue_record self)
                 [0..<length (residues (calc_structure_data self))]"
    by (rule residue_scores_InrD(3) [OF assms])
  fix i assume i: "i < length (residues (calc_structure_data self))"
  show "set (residue_partners self i) =
              {j. j < length (coordinates (calc_structure_data self)) \<and> j \<noteq> i \<and>
                  calc_pae_matrix self ! i ! j \<le> pae_cutoff self \<and>
                  euclidean (coordinates (calc_structure_data self) ! i)
                            (coordinates (calc_structure_data self) ! j)
                    \<le> distance_cutoff self}"
    by (rule set_residue_partners)
  assume ne: "residue_partners self i \<noteq> []"
  from residue_record_Some [OF ne] obtain s where rec: "residue_record self i = Some s" ..
  have "s \<in> set out"
    unfolding out using i rec by (intro in_map_filterI [where x = i]) simp_all
  with residue_record_SomeD(2-11) [OF rec]
  show "\<exists>s \<in> set out.
                  chain s = fst (residues (calc_structure_data self) ! i) \<and>
                  residue_number s = fst (snd (residues (calc_structure_data self) ! i)) \<and>
                  residue_name s = snd (snd (residues (calc_structure_data self) ! i)) \<and>
                  ResidueScore.num_interactions s = length (residue_partners self i) \<and>
                  ResidueScore.avg_pae s =
                    mean (map (\<lambda>j. pae_at self (i, j)) (residue_partners self i)) \<and>
                  ResidueScore.avg_distance s =
                    mean (map (\<lambda>j. dist_at self (i, j)) (residue_partners self i)) \<and>
                  ResidueScore.ipsae_score s =
                    1 - mean (map (\<lambda>j. pae_at self (i, j)) (residue_partners self i))
                          / pae_cutoff self \<and>
                  ResidueScore.valid_interactions s = map (Pair i) (residue_partners self i) \<and>
                  ResidueScore.pae_values s =
                    map (\<lambda>j. pae_at self (i, j)) (residue_partners self i) \<and>
                  ResidueScore.distances s =
                    map (\<lambda>j. dist_at self (i, j)) (residue_partners self i)"
    by blast
qed

lemma example_partners:
  "residue_partners (load_data example_calc) 0 = [1]"
  "residue_partners (load_data example_calc) 1 = [0]"
  "residue_partners (load_data example_calc) 2 = []"
  by (simp_all add: residue_partners_def load_data_def example_calc_def example_structure_def
        example_pae_def pae_at_def dist_at_def euclidean_def sqrt_le_iff_sq upt_rec)

theorem residue_scan_witness:
  "calculate_residue_scores (load_data example_calc) = Inr example_residue_scores \<and>
   example_residue_scores =
     List.map_filter (residue_record (load_data example_calc))
       [0..<length (residues (calc_structure_data (load_data example_calc)))] \<and>
   (0::nat) < length (residues (calc_structure_data (load_data example_calc))) \<and>
   residue_partners (load_data example_calc) 0 = [1]"
proof -
  from residue_scan [OF example_residue_run]
  have "example_residue_scores =
     List.map_filter (residue_record (load_data example_calc))
       [0..<length (residues (calc_structure_data (load_data example_calc)))]"
    by (rule conjunct1)
  moreover have "(0::nat) < length (residues (calc_structure_data (load_data example_calc)))"
    by (simp add: load_data_def example_calc_def example_structure_def)
  ultimately show ?thesis
    using example_residue_run example_partners(1) by blast
qed

lemma length_map_filter:
  "length (List.map_filter f xs) = length (filter (\<lambda>x. f x \<noteq> None) xs)"
  by (simp add: List.map_filter_def)

lemma residue_record_None_iff:
  "residue_record self i = None \<longleftrightarrow> residue_partners self i = []"
  by (simp add: residue_record_def Let_def)

lemma pair_record_None_iff:
  "pair_record self c1 c2 = None \<longleftrightarrow> pair_qualifying self c1 c2 = []"
  by (simp add: pair_record_def Let_def)

lemma far_apart_no_qualifying:
  "\<forall>p \<in> set (pair_candidates self c1 c2). distance_cutoff self < dist_at self p \<Longrightarrow>
     pair_qualifying self c1 c2 = []"
  by (auto simp: pair_qualifying_def filter_empty_conv)

text \<open>
  C4. Omission law. Every emitted score has at least one interaction. A chain pair whose
  qualifying set is empty has no entry in the output, in particular a pair whose
  cross-distances all exceed \<open>distance_cutoff\<close>, whatever the other pairs do. A residue with
  no qualifying partner has no entry either: the output has exactly one record per residue
  with a partner, and no record lists an interaction of a residue without partners.
\<close>

theorem omission_law:
  "(calculate_chain_chain_scores self = Inr ccs \<longrightarrow>
      (\<forall>s \<in> set ccs. 0 < ChainChainScore.num_interactions s) \<and>
      (\<forall>c1 c2. pair_qualifying self c1 c2 = [] \<longrightarrow>
         \<not> (\<exists>s \<in> set ccs. chain1 s = c1 \<and> chain2 s = c2)) \<and>
      (\<forall>c1 c2. (\<forall>p \<in> set (pair_candidates self c1 c2).
                   distance_cutoff self < dist_at self p) \<longrightarrow>
         \<not> (\<exists>s \<in> set ccs. chain1 s = c1 \<and> chain2 s = c2))) \<and>
   (calculate_residue_scores self = Inr rss \<longrightarrow>
      (\<forall>s \<in> set rss. 0 < ResidueScore.num_interactions s) \<and>
      length rss =
        length (filter (\<lambda>i. residue_partners self i \<noteq> [])
                  [0..<length (residues (calc_structure_data self))]) \<and>
      (\<forall>i. residue_partners self i = [] \<longrightarrow>
         \<not> (\<exists>s \<in> set rss. \<exists>j. (i, j) \<in> set (ResidueScore.valid_interactions s))))"
proof (intro conjI impI)
  assume run: "calculate_chain_chain_scores self = Inr ccs"
  have emitted: "pair_qualifying self (chain1 s) (chain2 s) \<noteq> [] \<and>
        ChainChainScore.num_interactions s = length (pair_qualifying self (chain1 s) (chain2 s))"
    if "s \<in> set ccs" for s
  proof -
    from chain_score_origin [OF run that] obtain p where
      rec: "pair_record self (fst p) (snd p) = Some s" by blast
    from pair_record_SomeD(1-3,7) [OF rec] show ?thesis by simp
  qed
  show "\<forall>s \<in> set ccs. 0 < ChainChainScore.num_interactions s"
    using emitted by simp
  show none: "\<forall>c1 c2. pair_qualifying self c1 c2 = [] \<longrightarrow>
         \<not> (\<exists>s \<in> set ccs. chain1 s = c1 \<and> chain2 s = c2)"
    using emitted by blast
  show "\<forall>c1 c2. (\<forall>p \<in> set (pair_candidates self c1 c2).
                   distance_cutoff self < dist_at self p) \<longrightarrow>
         \<not> (\<exists>s \<in> set ccs. chain1 s = c1 \<and> chain2 s = c2)"
    using none far_apart_no_qualifying by blast
next
  assume run: "calculate_residue_scores self = Inr rss"
  have emitted: "\<exists>i. residue_partners self i \<noteq> [] \<and>
        ResidueScore.num_interactions s = length (residue_partners self i) \<and>
        ResidueScore.valid_interactions s = map (Pair i) (residue_partners self i)"
    if "s \<in> set rss" for s
  proof -
    from residue_score_origin [OF run that] obtain i where
      rec: "residue_record self i = Some s" by blast
    from residue_record_SomeD(1,5,8) [OF rec] show ?thesis by blast
  qed
  show "\<forall>s \<in> set rss. 0 < ResidueScore.num_interactions s"
    using emitted by fastforce
  show "length rss =
        length (filter (\<lambda>i. residue_partners self i \<noteq> [])
                  [0..<length (residues (calc_structure_data self))])"
    unfolding residue_scores_InrD(3) [OF run] length_map_filter residue_record_None_iff ..
  show "\<forall>i. residue_partners self i = [] \<longrightarrow>
         \<not> (\<exists>s \<in> set rss. \<exists>j. (i, j) \<in> set (ResidueScore.valid_interactions s))"
  proof (intro allI impI notI)
    fix i assume e: "residue_partners self i = []"
      and "\<exists>s \<in> set rss. \<exists>j. (i, j) \<in> set (ResidueScore.valid_interactions s)"
    then obtain s j where s: "s \<in> set rss" and j: "(i, j) \<in> set (ResidueScore.valid_interactions s)"
      by blast
    from emitted [OF s] obtain i' where
      i': "residue_partners self i' \<noteq> []"
        "ResidueScore.valid_interactions s = map (Pair i') (residue_partners self i')"
      by blast
    from j i'(2) have "i = i'" by auto
    with e i'(1) show False by simp
  qed
qed

lemma example_far_apart:
  "\<forall>p \<in> set (pair_candidates (load_data example_calc) ''A'' ''C'').
     distance_cutoff (load_data example_calc) < dist_at (load_data example_calc) p"
  by (simp add: pair_candidates_def chain_indices_def load_data_def example_calc_def
        example_structure_def dist_at_def euclidean_def real_less_rsqrt)

theorem omission_law_witness:
  "calculate_chain_chain_scores (load_data example_calc) = Inr [example_chain_score] \<and>
   calculate_residue_scores (load_data example_calc) = Inr example_residue_scores \<and>
   pair_candidates (load_data example_calc) ''A'' ''C'' = [(0, 2)] \<and>
   distance_cutoff (load_data example_calc) < dist_at (load_data example_calc) (0, 2) \<and>
   (chain1 example_chain_score, chain2 example_chain_score) \<noteq> (''A'', ''C'') \<and>
   residue_partners (load_data example_calc) 2 = [] \<and>
   length example_residue_scores = 2"
proof -
  from omission_law [of "load_data example_calc" "[example_chain_score]" example_residue_scores]
    example_chain_run example_far_apart
  have "\<not> (chain1 example_chain_score = ''A'' \<and> chain2 example_chain_score = ''C'')"
    by (metis list.set_intros(1))
  moreover have "pair_candidates (load_data example_calc) ''A'' ''C'' = [(0, 2)]"
    by (simp add: pair_candidates_def chain_indices_def load_data_def example_calc_def
          example_structure_def)
  moreover have "distance_cutoff (load_data example_calc) < dist_at (load_data example_calc) (0, 2)"
    by (simp add: load_data_def example_calc_def example_structure_def dist_at_def
          euclidean_def real_less_rsqrt)
  ultimately show ?thesis
    using example_chain_run example_residue_run example_partners(3)
    by (simp add: example_residue_scores_def)
qed

lemma length_filter_mono:
  "(\<And>x. x \<in> set xs \<Longrightarrow> P x \<Longrightarrow> Q x) \<Longrightarrow> length (filter P xs) \<le> length (filter Q xs)"
proof (induction xs)
  case Nil
  show ?case by simp
next
  case (Cons x xs)
  then have "length (filter P xs) \<le> length (filter Q xs)" by simp
  with Cons.prems [of x] show ?case by auto
qed

lemma cutoff_update_simps:
  "pair_candidates (self\<lparr>pae_cutoff := p\<rparr>) c1 c2 = pair_candidates self c1 c2"
  "pair_ok (self\<lparr>pae_cutoff := p\<rparr>) D c1 c2 = pair_ok self D c1 c2"
  "residue_ok (self\<lparr>pae_cutoff := p\<rparr>) D i = residue_ok self D i"
  "pae_at (self\<lparr>pae_cutoff := p\<rparr>) = pae_at self"
  "dist_at (self\<lparr>pae_cutoff := p\<rparr>) = dist_at self"
  by (simp_all add: pair_candidates_def pair_ok_def residue_ok_def pae_at_def dist_at_def
        fun_eq_iff)

lemma pair_qualifying_mono:
  assumes "p1 \<le> p2"
  shows "set (pair_qualifying (self\<lparr>pae_cutoff := p1\<rparr>) c1 c2) \<subseteq>
           set (pair_qualifying (self\<lparr>pae_cutoff := p2\<rparr>) c1 c2)"
    and "length (pair_qualifying (self\<lparr>pae_cutoff := p1\<rparr>) c1 c2) \<le>
           length (pair_qualifying (self\<lparr>pae_cutoff := p2\<rparr>) c1 c2)"
  using assms
  by (auto simp: pair_qualifying_def cutoff_update_simps intro!: length_filter_mono)

lemma residue_partners_mono:
  assumes "p1 \<le> p2"
  shows "set (residue_partners (self\<lparr>pae_cutoff := p1\<rparr>) i) \<subseteq>
           set (residue_partners (self\<lparr>pae_cutoff := p2\<rparr>) i)"
    and "length (residue_partners (self\<lparr>pae_cutoff := p1\<rparr>) i) \<le>
           length (residue_partners (self\<lparr>pae_cutoff := p2\<rparr>) i)"
  using assms
  by (auto simp: residue_partners_def cutoff_update_simps intro!: length_filter_mono)

lemma pair_record_Some:
  "pair_qualifying self c1 c2 \<noteq> [] \<Longrightarrow> \<exists>s. pair_record self c1 c2 = Some s"
  by (simp add: pair_record_def Let_def)

text \<open>
  C7. Monotonicity in the PAE cutoff. With the dataset and \<open>distance_cutoff\<close> fixed and
  p1 \<le> p2, a run with cutoff p1 that returns is matched by a run with cutoff p2 that
  returns, every chain pair and every residue emitted with p1 is emitted with p2, its
  interactions with p1 are among those with p2, and its \<open>num_interactions\<close> does not decrease.
\<close>

theorem pae_cutoff_monotone:
  assumes "p1 \<le> p2"
  shows "(calculate_chain_chain_scores (self\<lparr>pae_cutoff := p1\<rparr>) = Inr out1 \<longrightarrow>
           (\<exists>out2. calculate_chain_chain_scores (self\<lparr>pae_cutoff := p2\<rparr>) = Inr out2 \<and>
              (\<forall>s1 \<in> set out1. \<exists>s2 \<in> set out2.
                 chain1 s2 = chain1 s1 \<and> chain2 s2 = chain2 s1 \<and>
                 ChainChainScore.num_interactions s1 \<le> ChainChainScore.num_interactions s2 \<and>
                 set (ChainChainScore.valid_interactions s1) \<subseteq>
                   set (ChainChainScore.valid_interactions s2)))) \<and>
         (calculate_residue_scores (self\<lparr>pae_cutoff := p1\<rparr>) = Inr rs1 \<longrightarrow>
           (\<exists>rs2. calculate_residue_scores (self\<lparr>pae_cutoff := p2\<rparr>) = Inr rs2 \<and>
              (\<forall>s1 \<in> set rs1. \<exists>s2 \<in> set rs2.
                 chain s2 = chain s1 \<and> residue_number s2 = residue_number s1 \<and>
                 residue_name s2 = residue_name s1 \<and>
                 ResidueScore.num_interactions s1 \<le> ResidueScore.num_interactions s2 \<and>
                 set (ResidueScore.valid_interactions s1) \<subseteq>
                   set (ResidueScore.valid_interactions s2))))"
proof (intro conjI impI)
  let ?s1 = "self\<lparr>pae_cutoff := p1\<rparr>" and ?s2 = "self\<lparr>pae_cutoff := p2\<rparr>"
  let ?ps = "chain_pairs (sort (remdups (chains (calc_structure_data self))))"
  assume run: "calculate_chain_chain_scores ?s1 = Inr out1"
  let ?out2 = "List.map_filter (\<lambda>p. pair_record ?s2 (fst p) (snd p)) ?ps"
  from chain_scores_InrD [OF run]
  have run2: "calculate_chain_chain_scores ?s2 = Inr ?out2"
    by (simp add: calculate_chain_chain_scores_eq cutoff_update_simps)
  have "\<exists>s2 \<in> set ?out2.
          chain1 s2 = chain1 s1 \<and> chain2 s2 = chain2 s1 \<and>
          ChainChainScore.num_interactions s1 \<le> ChainChainScore.num_interactions s2 \<and>
          set (ChainChainScore.valid_interactions s1) \<subseteq> set (ChainChainScore.valid_interactions s2)"
    if s1: "s1 \<in> set out1" for s1
  proof -
    from chain_score_origin [OF run s1] obtain p where
      p: "p \<in> set ?ps" and rec1: "pair_record ?s1 (fst p) (snd p) = Some s1" by auto
    note f1 = pair_record_SomeD(1-4,7) [OF rec1]
    from f1(1) pair_qualifying_mono(1) [OF assms, of self "fst p" "snd p"]
    have "pair_qualifying ?s2 (fst p) (snd p) \<noteq> []" by auto
    from pair_record_Some [OF this] obtain s2 where
      rec2: "pair_record ?s2 (fst p) (snd p) = Some s2" ..
    note f2 = pair_record_SomeD(1-4,7) [OF rec2]
    have "s2 \<in> set ?out2" using p rec2 by (rule in_map_filterI)
    moreover have "chain1 s2 = chain1 s1" "chain2 s2 = chain2 s1"
      by (simp_all add: f1 f2)
    moreover have "ChainChainScore.num_interactions s1 \<le> ChainChainScore.num_interactions s2"
      unfolding f1 f2 by (rule pair_qualifying_mono(2) [OF assms])
    moreover have "set (ChainChainScore.valid_interactions s1) \<subseteq> set (ChainChainScore.valid_interactions s2)"
      unfolding f1 f2 by (rule pair_qualifying_mono(1) [OF assms])
    ultimately show ?thesis by blast
  qed
  with run2 show "\<exists>out2. calculate_chain_chain_scores ?s2 = Inr out2 \<and>
              (\<forall>s1 \<in> set out1. \<exists>s2 \<in> set out2.
                 chain1 s2 = chain1 s1 \<and> chain2 s2 = chain2 s1 \<and>
                 ChainChainScore.num_interactions s1 \<le> ChainChainScore.num_interactions s2 \<and>
                 set (ChainChainScore.valid_interactions s1) \<subseteq>
                   set (ChainChainScore.valid_interactions s2))"
    by blast
next
  let ?s1 = "self\<lparr>pae_cutoff := p1\<rparr>" and ?s2 = "self\<lparr>pae_cutoff := p2\<rparr>"
  let ?n = "length (residues (calc_structure_data self))"
  assume run: "calculate_residue_scores ?s1 = Inr rs1"
  let ?out2 = "List.map_filter (residue_record ?s2) [0..<?n]"
  from residue_scores_InrD [OF run]
  have run2: "calculate_residue_scores ?s2 = Inr ?out2"
    by (simp add: calculate_residue_scores_eq cutoff_update_simps)
  have "\<exists>s2 \<in> set ?out2.
          chain s2 = chain s1 \<and> residue_number s2 = residue_number s1 \<and>
          residue_name s2 = residue_name s1 \<and>
          ResidueScore.num_interactions s1 \<le> ResidueScore.num_interactions s2 \<and>
          set (ResidueScore.valid_interactions s1) \<subseteq> set (ResidueScore.valid_interactions s2)"
    if s1: "s1 \<in> set rs1" for s1
  proof -
    from residue_score_origin [OF run s1] obtain i where
      i: "i < ?n" and rec1: "residue_record ?s1 i = Some s1" by auto
    note f1 = residue_record_SomeD(1-5,8) [OF rec1]
    from f1(1) residue_partners_mono(1) [OF assms, of self i]
    have "residue_partners ?s2 i \<noteq> []" by auto
    from residue_record_Some [OF this] obtain s2 where
      rec2: "residue_record ?s2 i = Some s2" ..
    note f2 = residue_record_SomeD(1-5,8) [OF rec2]
    have "s2 \<in> set ?out2" using i rec2 by (intro in_map_filterI [where x = i]) simp_all
    moreover have "chain s2 = chain s1" "residue_number s2 = residue_number s1"
      "residue_name s2 = residue_name s1"
      by (simp_all add: f1 f2)
    moreover have "ResidueScore.num_interactions s1 \<le> ResidueScore.num_interactions s2"
      unfolding f1 f2 by (rule residue_partners_mono(2) [OF assms])
    moreover have "set (ResidueScore.valid_interactions s1) \<subseteq> set (ResidueScore.valid_interactions s2)"
      unfolding f1 f2 using residue_partners_mono(1) [OF assms, of self i] by auto
    ultimately show ?thesis by blast
  qed
  with run2 show "\<exists>rs2. calculate_residue_scores ?s2 = Inr rs2 \<and>
              (\<forall>s1 \<in> set rs1. \<exists>s2 \<in> set rs2.
                 chain s2 = chain s1 \<and> residue_number s2 = residue_number s1 \<and>
                 residue_name s2 = residue_name s1 \<and>
                 ResidueScore.num_interactions s1 \<le> ResidueScore.num_interactions s2 \<and>
                 set (ResidueScore.valid_interactions s1) \<subseteq>
                   set (ResidueScore.valid_interactions s2))"
    by blast
qed

lemma example_chain_run_tight:
  "calculate_chain_chain_scores ((load_data example_calc)\<lparr>pae_cutoff := 10\<rparr>) =
     Inr [example_chain_score\<lparr>ChainChainScore.ipsae_score := 0\<rparr>]"
  by (simp add: calculate_chain_chain_scores_def load_data_def example_calc_def
        example_structure_def example_pae_def example_chain_score_def cdist_def
        euclidean_def score_pair_def chain_indices_def visit_def getitem2_def mean_def
        sqrt_le_iff_sq sqrt_9 Let_def)

lemma example_calc_cutoff:
  "(load_data example_calc)\<lparr>pae_cutoff := 30\<rparr> = load_data example_calc"
  by (simp add: load_data_def example_calc_def)

theorem pae_cutoff_monotone_witness:
  "(10::real) \<le> 30 \<and>
   calculate_chain_chain_scores ((load_data example_calc)\<lparr>pae_cutoff := 10\<rparr>) =
     Inr [example_chain_score\<lparr>ChainChainScore.ipsae_score := 0\<rparr>] \<and>
   calculate_chain_chain_scores ((load_data example_calc)\<lparr>pae_cutoff := 30\<rparr>) =
     Inr [example_chain_score] \<and>
   ChainChainScore.num_interactions (example_chain_score\<lparr>ChainChainScore.ipsae_score := 0\<rparr>)
     \<le> ChainChainScore.num_interactions example_chain_score"
proof -
  have le: "(10::real) \<le> 30" by simp
  from pae_cutoff_monotone [OF le, of "load_data example_calc"
      "[example_chain_score\<lparr>ChainChainScore.ipsae_score := 0\<rparr>]" "[]"]
    example_chain_run_tight example_chain_run
  have "ChainChainScore.num_interactions (example_chain_score\<lparr>ChainChainScore.ipsae_score := 0\<rparr>)
     \<le> ChainChainScore.num_interactions example_chain_score"
    by (simp add: example_calc_cutoff)
  with le example_chain_run_tight example_chain_run show ?thesis
    by (simp add: example_calc_cutoff)
qed















section \<open>Failures of the scorer\<close>



lemma residue_scores_error:
  "calculate_residue_scores self = Inl e \<Longrightarrow> coordinates (calc_structure_data self) \<noteq> [] \<Longrightarrow>
     e = IndexError"
  unfolding calculate_residue_scores_eq by (auto split: if_splits)









section \<open>The parsers against comprehensions\<close>

lemma loop_atoms_eq:
  "loop_atoms as cs = cs @ map atom_coord (filter (\<lambda>a. atom_id a = ''CA'') as)"
  by (induction as arbitrary: cs) simp_all

lemma loop_chain_residues_eq:
  "loop_chain_residues cid rs (R, C) =
     (R @ map (\<lambda>r. (cid, fst (snd (res_id r)), resname r)) rs,
      C @ map atom_coord (filter (\<lambda>a. atom_id a = ''CA'') (concat (map res_atoms rs))))"
  by (induction rs arbitrary: R C) (simp_all add: loop_atoms_eq)

lemma loop_model_chains_eq:
  "loop_model_chains cs (H, R, C) =
     (H @ map chain_id cs,
      R @ concat (map (\<lambda>c. map (\<lambda>r. (chain_id c, fst (snd (res_id r)), resname r))
                              (chain_residues c)) cs),
      C @ map atom_coord (filter (\<lambda>a. atom_id a = ''CA'')
            (concat (map res_atoms (concat (map chain_residues cs))))))"
  by (induction cs arbitrary: H R C) (simp_all add: loop_chain_residues_eq)

lemma loop_models_eq:
  "loop_models ms (H, R, C) =
     (H @ map chain_id (concat ms),
      R @ concat (map (\<lambda>c. map (\<lambda>r. (chain_id c, fst (snd (res_id r)), resname r))
                              (chain_residues c)) (concat ms)),
      C @ map atom_coord (filter (\<lambda>a. atom_id a = ''CA'')
            (concat (map res_atoms (concat (map chain_residues (concat ms)))))))"
  by (induction ms arbitrary: H R C) (simp_all add: loop_model_chains_eq)

lemma parse_cif_eq:
  "parse_cif st =
     \<lparr>chains = map chain_id (concat st),
      residues = concat (map (\<lambda>c. map (\<lambda>r. (chain_id c, fst (snd (res_id r)), resname r))
                              (chain_residues c)) (concat st)),
      coordinates = map atom_coord (filter (\<lambda>a. atom_id a = ''CA'')
            (concat (map res_atoms (concat (map chain_residues (concat st)))))),
      pae_matrix = None\<rparr>"
  by (simp add: parse_cif_def loop_models_eq)

lemma parse_pdb_eq: "parse_pdb st = parse_cif st"
  by (simp add: parse_pdb_def parse_cif_def)

lemma length_concat_const:
  "\<forall>x \<in> set xs. length (f x) = 1 \<Longrightarrow> length (concat (map f xs)) = length xs"
  by (induction xs) simp_all

lemma ca_count:
  assumes "\<forall>r \<in> set rs. length (filter (\<lambda>a. atom_id a = ''CA'') (res_atoms r)) = 1"
  shows "length (filter (\<lambda>a. atom_id a = ''CA'') (concat (map res_atoms rs))) = length rs"
  using assms by (induction rs) simp_all

lemma length_concat_residues:
  "length (concat (map (\<lambda>c. map (g c) (chain_residues c)) cs)) =
     length (concat (map chain_residues cs))"
  by (induction cs) simp_all

text \<open>
  C8, as amended. In the \<open>StructureData\<close> returned by \<open>parse_cif\<close> and \<open>parse_pdb\<close>
  (which compute the same), \<open>chains\<close> has one label per chain of the parsed structure, not
  one per residue; \<open>residues\<close> has one entry per residue, in order, each carrying the label of
  its chain; and when every residue has exactly one CA atom there is exactly one coordinate
  per residue.
\<close>

theorem parser_dimensions:
  "chains (parse_cif st) = map chain_id (concat st) \<and>
   length (residues (parse_cif st)) = length (concat (map chain_residues (concat st))) \<and>
   map fst (residues (parse_cif st)) =
     concat (map (\<lambda>c. replicate (length (chain_residues c)) (chain_id c)) (concat st)) \<and>
   ((\<forall>r \<in> set (concat (map chain_residues (concat st))).
       length (filter (\<lambda>a. atom_id a = ''CA'') (res_atoms r)) = 1) \<longrightarrow>
      length (coordinates (parse_cif st)) = length (residues (parse_cif st))) \<and>
   parse_pdb st = parse_cif st"
proof (intro conjI impI)
  show "chains (parse_cif st) = map chain_id (concat st)"
    by (simp add: parse_cif_eq)
  show len: "length (residues (parse_cif st)) = length (concat (map chain_residues (concat st)))"
    by (simp add: parse_cif_eq length_concat_residues)
  show "map fst (residues (parse_cif st)) =
     concat (map (\<lambda>c. replicate (length (chain_residues c)) (chain_id c)) (concat st))"
    by (simp add: parse_cif_eq map_concat comp_def map_replicate_const)
  show "parse_pdb st = parse_cif st" by (rule parse_pdb_eq)
  assume "\<forall>r \<in> set (concat (map chain_residues (concat st))).
       length (filter (\<lambda>a. atom_id a = ''CA'') (res_atoms r)) = 1"
  from ca_count [OF this] show "length (coordinates (parse_cif st)) = length (residues (parse_cif st))"
    unfolding len by (simp add: parse_cif_eq)
qed

lemma two_residue_parse:
  "parse_cif two_residue_structure =
     \<lparr>chains = [''A''],
      residues = [(''A'', 1, ''ALA''), (''A'', 2, ''GLY'')],
      coordinates = [(0, 0, 0), (3, 0, 0)],
      pae_matrix = None\<rparr>"
  by (simp add: parse_cif_def two_residue_structure_def)

theorem parser_dimensions_witness:
  "map (\<lambda>r. length (filter (\<lambda>a. atom_id a = ''CA'') (res_atoms r)))
     (concat (map chain_residues (concat two_residue_structure))) = [1, 1] \<and>
   length (coordinates (parse_cif two_residue_structure)) = 2 \<and>
   length (residues (parse_cif two_residue_structure)) = 2 \<and>
   parse_pdb two_residue_structure = parse_cif two_residue_structure"
proof -
  have one: "\<forall>r \<in> set (concat (map chain_residues (concat two_residue_structure))).
       length (filter (\<lambda>a. atom_id a = ''CA'') (res_atoms r)) = 1"
    by (simp add: two_residue_structure_def)
  from parser_dimensions [of two_residue_structure] one
  have "length (coordinates (parse_cif two_residue_structure)) =
          length (residues (parse_cif two_residue_structure))"
    and "parse_pdb two_residue_structure = parse_cif two_residue_structure"
    by blast+
  then show ?thesis
    by (simp add: two_residue_parse) (simp add: two_residue_structure_def)
qed

text \<open>One chain of two residues gives one chain label and two residues.\<close>

theorem parser_dimensions_counterexample:
  "length (chains (parse_cif two_residue_structure)) = 1 \<and>
   length (residues (parse_cif two_residue_structure)) = 2 \<and>
   length (chains (parse_pdb two_residue_structure)) = 1 \<and>
   length (residues (parse_pdb two_residue_structure)) = 2"
  by (simp add: parse_pdb_eq two_residue_parse)

section \<open>The saved mapping\<close>














end
